theory Spec2Isabelle
  imports Complex_Main
begin

section \<open>JavaScript values\<close>

text \<open>
  The values that cross the handler: what \<open>response.json()\<close> produces, what the handler
  puts into its output object. A number is modelled by its real value; the handler
  only ever tests a number for being zero (in \<open>||\<close>), rounding is not modelled.
  An object is the list of its own properties in insertion order, each name once (a
  lookup takes the first entry of a name).
\<close>

datatype jsval =
    JUndefined
  | JNull
  | JBool bool
  | JNum real
  | JStr string
  | JArr "jsval list"
  | JObj "(string \<times> jsval) list"

type_synonym jsobj = "(string \<times> jsval) list"

text \<open>
  An \<open>Error\<close> object as the \<open>catch\<close> clause sees it: only \<open>error.message\<close> is read.
  Everything that can be thrown inside the \<open>try\<close> block (by \<open>fetch\<close>, by
  \<open>response.json()\<close>, by a property read on \<open>null\<close>) is an \<open>Error\<close> instance with a
  string message.
\<close>

datatype js_error = JsError (message: string)

text \<open>ToBoolean, as \<open>||\<close> and \<open>!\<close> apply it.\<close>

fun truthy :: "jsval \<Rightarrow> bool" where
  "truthy JUndefined = False"
| "truthy JNull = False"
| "truthy (JBool b) = b"
| "truthy (JNum n) = (n \<noteq> 0)"
| "truthy (JStr s) = (s \<noteq> [])"
| "truthy (JArr xs) = True"
| "truthy (JObj kvs) = True"

text \<open>\<open>a || b\<close> on values.\<close>

definition js_or :: "jsval \<Rightarrow> jsval \<Rightarrow> jsval" where
  "js_or a b = (if truthy a then a else b)"

text \<open>
  An entry of \<open>process.env\<close> is a string or \<open>undefined\<close>; \<open>env_value\<close> is the
  JavaScript value read from it.
\<close>

definition env_value :: "string option \<Rightarrow> jsval" where
  "env_value v = (case v of None \<Rightarrow> JUndefined | Some s \<Rightarrow> JStr s)"

text \<open>Reading a property of an object value that has it or not: a missing one is \<open>undefined\<close>.\<close>

definition field :: "jsobj \<Rightarrow> string \<Rightarrow> jsval" where
  "field obj k = (case map_of obj k of None \<Rightarrow> JUndefined | Some v \<Rightarrow> v)"

text \<open>The decimal text of a non-negative integer, as a template literal prints it.\<close>

definition digit_char :: "nat \<Rightarrow> char" where
  "digit_char d = ''0123456789'' ! d"

fun show_nat :: "nat \<Rightarrow> string" where
  "show_nat n = (if n < 10 then [digit_char n] else show_nat (n div 10) @ [digit_char (n mod 10)])"

declare show_nat.simps [simp del]

section \<open>The world outside the handler\<close>

text \<open>The options object of a \<open>fetch\<close> call (\<open>http_method\<close> is its \<open>method\<close> entry).\<close>

record request_init =
  http_method :: string
  headers :: "(string \<times> string) list"
  body :: string

text \<open>
  A \<open>Response\<close>: its status code and what \<open>await response.json()\<close> does with its body,
  which is to throw (the body cannot be read, or is not JSON) or to give the parsed value.
\<close>

record response =
  status :: nat
  json :: "js_error + jsval"

text \<open>\<open>response.ok\<close>: the status is in the range 200 to 299.\<close>

definition ok :: "response \<Rightarrow> bool" where
  "ok r = (200 \<le> status r \<and> status r \<le> 299)"

text \<open>\<open>await fetch(...)\<close> throws (the call itself failed) or gives a response.\<close>

datatype fetch_outcome = Rejected js_error | Resolved response

text \<open>
  What the handler takes from its surroundings: the two environment variables it reads,
  the backend behind \<open>fetch\<close>, and two parts of the JavaScript runtime that are not
  code of this repository: \<open>JSON.stringify\<close>, and the \<open>TypeError\<close> that reading the
  named property of \<open>null\<close> or \<open>undefined\<close> throws (its text depends on the engine).
  \<open>JSON.stringify\<close> is a total function here: the input was deserialised from JSON, so
  it holds nothing that makes the serialisation throw. A \<open>fetch\<close> whose promise never
  settles is not modelled: every call throws or gives a response.
\<close>

record runtime =
  CLOUDFLARE_BACKEND :: "string option"
  INTERNAL_API_KEY :: "string option"
  fetch :: "string \<Rightarrow> request_init \<Rightarrow> fetch_outcome"
  JSON_stringify :: "jsval \<Rightarrow> string"
  null_property_error :: "string \<Rightarrow> js_error"

text \<open>
  \<open>data.k\<close> for the parsed body \<open>data\<close> and the property names the handler reads
  (\<open>error\<close>, \<open>success\<close>, \<open>transaction_id\<close>, \<open>message\<close>, \<open>estimated_execution\<close>; no built-in
  prototype defines any of them): it throws on \<open>null\<close> and \<open>undefined\<close>, gives the own
  property of an object, and \<open>undefined\<close> on every other value.
\<close>

fun get_prop :: "runtime \<Rightarrow> jsval \<Rightarrow> string \<Rightarrow> js_error + jsval" where
  "get_prop rt JUndefined k = Inl (null_property_error rt k)"
| "get_prop rt JNull k = Inl (null_property_error rt k)"
| "get_prop rt (JObj kvs) k = Inr (field kvs k)"
| "get_prop rt (JBool b) k = Inr JUndefined"
| "get_prop rt (JNum n) k = Inr JUndefined"
| "get_prop rt (JStr s) k = Inr JUndefined"
| "get_prop rt (JArr xs) k = Inr JUndefined"

text \<open>The value such a read gives when it does not throw.\<close>

fun own_prop :: "jsval \<Rightarrow> string \<Rightarrow> jsval" where
  "own_prop (JObj kvs) k = field kvs k"
| "own_prop v k = JUndefined"

section \<open>The submit entrypoint\<close>

text \<open>The input after \<open>DarkPoolSubmitInputSchema\<close> has parsed it.\<close>

record submission_request =
  agent_id :: string
  target_endpoint :: string
  request_payload :: jsobj
  payment_amount :: string

record usage_info =
  total_tokens :: nat

record handler_result =
  output_obj :: jsobj
  usage :: usage_info

text \<open>
  One run of the handler: what it returns, the \<open>fetch\<close> calls it made, in order, and
  the errors it wrote with \<open>console.error\<close>.
\<close>

record handler_run =
  returned :: handler_result
  calls :: "(string \<times> request_init) list"
  logged :: "js_error list"

text \<open>\<open>process.env.CLOUDFLARE_BACKEND || "https://agent-dark-pool.pulseradar.workers.dev"\<close>\<close>

definition backendUrl :: "runtime \<Rightarrow> string" where
  "backendUrl rt =
     (case CLOUDFLARE_BACKEND rt of
        None \<Rightarrow> ''https://agent-dark-pool.pulseradar.workers.dev''
      | Some s \<Rightarrow> if s \<noteq> [] then s else ''https://agent-dark-pool.pulseradar.workers.dev'')"

text \<open>The second argument of the \<open>fetch\<close> call.\<close>

definition submit_init :: "runtime \<Rightarrow> string \<Rightarrow> submission_request \<Rightarrow> request_init" where
  "submit_init rt apiKey input =
     \<lparr> http_method = ''POST'',
       headers = [(''Content-Type'', ''application/json''), (''X-Internal-API-Key'', apiKey)],
       body = JSON_stringify rt (JObj
         [(''agent_id'', JStr (agent_id input)),
          (''target_endpoint'', JStr (target_endpoint input)),
          (''request_payload'', JObj (request_payload input)),
          (''payment_amount'', JStr (payment_amount input))]) \<rparr>"

text \<open>
  The statements of the \<open>try\<close> block after \<open>fetch\<close> has given a response: \<open>Inl\<close> is a
  throw, \<open>Inr\<close> a \<open>return\<close>.
\<close>

definition interpret_response :: "runtime \<Rightarrow> response \<Rightarrow> js_error + handler_result" where
  "interpret_response rt resp =
     (case json resp of
        Inl e \<Rightarrow> Inl e
      | Inr data \<Rightarrow>
          if \<not> ok resp then
            (case get_prop rt data ''error'' of
               Inl e \<Rightarrow> Inl e
             | Inr err \<Rightarrow>
                 Inr \<lparr> output_obj =
                         [(''success'', JBool False),
                          (''message'', js_or err (JStr (''Backend error: '' @ show_nat (status resp))))],
                       usage = \<lparr> total_tokens = 10 \<rparr> \<rparr>)
          else
            (case get_prop rt data ''success'' of
               Inl e \<Rightarrow> Inl e
             | Inr succ \<Rightarrow>
            (case get_prop rt data ''transaction_id'' of
               Inl e \<Rightarrow> Inl e
             | Inr tid \<Rightarrow>
            (case get_prop rt data ''message'' of
               Inl e \<Rightarrow> Inl e
             | Inr msg \<Rightarrow>
            (case get_prop rt data ''estimated_execution'' of
               Inl e \<Rightarrow> Inl e
             | Inr est \<Rightarrow>
                 Inr \<lparr> output_obj =
                         [(''success'', succ),
                          (''transaction_id'', tid),
                          (''message'', js_or msg (JStr ''Transaction submitted to dark pool'')),
                          (''estimated_execution'', est)],
                       usage = \<lparr> total_tokens = 50 \<rparr> \<rparr>)))))"

text \<open>
  \<open>await fetch(url, init)\<close> as an operation: its outcome, together with the calls it
  puts on the network, which is this one call.
\<close>

definition perform_fetch ::
  "runtime \<Rightarrow> string \<Rightarrow> request_init \<Rightarrow> fetch_outcome \<times> (string \<times> request_init) list" where
  "perform_fetch rt url init = (fetch rt url init, [(url, init)])"

text \<open>
  The \<open>try\<close> block: the \<open>fetch\<close> call, then the interpretation of its response. It
  gives what it throws or returns, and the calls that were made while it ran.
\<close>

definition try_block ::
  "runtime \<Rightarrow> string \<Rightarrow> submission_request \<Rightarrow>
   (js_error + handler_result) \<times> (string \<times> request_init) list" where
  "try_block rt apiKey input =
     (case perform_fetch rt (backendUrl rt @ ''/submit'') (submit_init rt apiKey input) of
        (Rejected e, made) \<Rightarrow> (Inl e, made)
      | (Resolved resp, made) \<Rightarrow> (interpret_response rt resp, made))"

text \<open>The \<open>catch\<close> clause.\<close>

definition catch_block :: "js_error \<Rightarrow> handler_result" where
  "catch_block error =
     \<lparr> output_obj =
         [(''success'', JBool False),
          (''message'', JStr (''Failed to submit transaction: '' @ message error))],
       usage = \<lparr> total_tokens = 10 \<rparr> \<rparr>"

definition handler :: "runtime \<Rightarrow> submission_request \<Rightarrow> handler_run" where
  "handler rt input =
     (if \<not> truthy (env_value (INTERNAL_API_KEY rt)) then
        \<lparr> returned =
            \<lparr> output_obj =
                [(''success'', JBool False),
                 (''message'', JStr ''Service misconfigured: Missing API key'')],
              usage = \<lparr> total_tokens = 10 \<rparr> \<rparr>,
          calls = [],
          logged = [] \<rparr>
      else
        (case try_block rt (the (INTERNAL_API_KEY rt)) input of
           (Inr r, made) \<Rightarrow> \<lparr> returned = r, calls = made, logged = [] \<rparr>
         | (Inl error, made) \<Rightarrow>
             \<lparr> returned = catch_block error, calls = made, logged = [error] \<rparr>))"

section \<open>The output schema\<close>

text \<open>
  \<open>DarkPoolSubmitOutputSchema\<close>: \<open>success\<close> a boolean, \<open>message\<close> a string,
  \<open>transaction_id\<close> and \<open>estimated_execution\<close> a string or \<open>undefined\<close> (which is also
  what a missing property reads as).
\<close>

fun is_boolean :: "jsval \<Rightarrow> bool" where
  "is_boolean (JBool b) = True"
| "is_boolean v = False"

fun is_string :: "jsval \<Rightarrow> bool" where
  "is_string (JStr s) = True"
| "is_string v = False"

fun is_optional_string :: "jsval \<Rightarrow> bool" where
  "is_optional_string JUndefined = True"
| "is_optional_string (JStr s) = True"
| "is_optional_string v = False"

definition DarkPoolSubmitOutputSchema :: "jsobj \<Rightarrow> bool" where
  "DarkPoolSubmitOutputSchema obj =
     (is_boolean (field obj ''success'') \<and>
      is_optional_string (field obj ''transaction_id'') \<and>
      is_string (field obj ''message'') \<and>
      is_optional_string (field obj ''estimated_execution''))"


section \<open>The payment amount pattern\<close>

text \<open>
  \<open>payment_amount\<close> is checked with \<open>z.string().regex(/^\d+\.\d{2}$/)\<close>. The regular
  expressions below are the fragment this pattern is written in; \<open>matches\<close> is the test
  of a pattern anchored at both ends (\<open>^\<close> \<dots> \<open>$\<close>, no flags) against a whole string,
  computed with derivatives. \<open>\d\<close> is one of the ten ASCII digits.
\<close>

definition is_digit :: "char \<Rightarrow> bool" where
  "is_digit c = (c \<in> set ''0123456789'')"

datatype regex =
    Zero
  | One
  | Digit
  | Lit char
  | Alt regex regex
  | Seq regex regex
  | Star regex

text \<open>\<open>r+\<close> and \<open>r{n}\<close>.\<close>

definition Plus :: "regex \<Rightarrow> regex" where
  "Plus r = Seq r (Star r)"

fun Times :: "nat \<Rightarrow> regex \<Rightarrow> regex" where
  "Times 0 r = One"
| "Times (Suc n) r = Seq r (Times n r)"

fun nullable :: "regex \<Rightarrow> bool" where
  "nullable Zero = False"
| "nullable One = True"
| "nullable Digit = False"
| "nullable (Lit c) = False"
| "nullable (Alt r s) = (nullable r \<or> nullable s)"
| "nullable (Seq r s) = (nullable r \<and> nullable s)"
| "nullable (Star r) = True"

fun deriv :: "char \<Rightarrow> regex \<Rightarrow> regex" where
  "deriv c Zero = Zero"
| "deriv c One = Zero"
| "deriv c Digit = (if is_digit c then One else Zero)"
| "deriv c (Lit d) = (if c = d then One else Zero)"
| "deriv c (Alt r s) = Alt (deriv c r) (deriv c s)"
| "deriv c (Seq r s) =
     (if nullable r then Alt (Seq (deriv c r) s) (deriv c s) else Seq (deriv c r) s)"
| "deriv c (Star r) = Seq (deriv c r) (Star r)"

fun matches :: "regex \<Rightarrow> string \<Rightarrow> bool" where
  "matches r [] = nullable r"
| "matches r (c # cs) = matches (deriv c r) cs"

definition payment_amount_regex :: regex where
  "payment_amount_regex = Seq (Plus Digit) (Seq (Lit (CHR ''.'')) (Times 2 Digit))"

definition payment_amount_ok :: "string \<Rightarrow> bool" where
  "payment_amount_ok s = matches payment_amount_regex s"

text \<open>The set of strings a regular expression denotes, to reason about \<open>matches\<close>.\<close>

inductive_set star :: "string set \<Rightarrow> string set" for A :: "string set" where
  star_empty: "[] \<in> star A"
| star_step: "u \<in> A \<Longrightarrow> v \<in> star A \<Longrightarrow> u @ v \<in> star A"

fun lang :: "regex \<Rightarrow> string set" where
  "lang Zero = {}"
| "lang One = {[]}"
| "lang Digit = {[c] | c. is_digit c}"
| "lang (Lit c) = {[c]}"
| "lang (Alt r s) = lang r \<union> lang s"
| "lang (Seq r s) = {u @ v | u v. u \<in> lang r \<and> v \<in> lang s}"
| "lang (Star r) = star (lang r)"

section \<open>Notions the properties are stated with\<close>

text \<open>The outcome of the one call the handler makes when it has the key \<open>apiKey\<close>.\<close>

definition backend_outcome :: "runtime \<Rightarrow> string \<Rightarrow> submission_request \<Rightarrow> fetch_outcome" where
  "backend_outcome rt apiKey input =
     fetch rt (backendUrl rt @ ''/submit'') (submit_init rt apiKey input)"


section \<open>Concrete surroundings\<close>

text \<open>
  A serialiser for the examples. It prints objects, arrays, booleans and strings that
  need no escape the way \<open>JSON.stringify\<close> does, and \<open>null\<close> for every other value.
\<close>

definition quoted :: "string \<Rightarrow> string" where
  "quoted s = [CHR 0x22] @ s @ [CHR 0x22]"

fun commas :: "string list \<Rightarrow> string" where
  "commas [] = []"
| "commas [x] = x"
| "commas (x # y # zs) = x @ '','' @ commas (y # zs)"

fun example_stringify :: "jsval \<Rightarrow> string" where
  "example_stringify (JStr s) = quoted s"
| "example_stringify (JBool b) = (if b then ''true'' else ''false'')"
| "example_stringify (JArr xs) = ''['' @ commas (map example_stringify xs) @ '']''"
| "example_stringify (JObj kvs) =
     ''{'' @ commas (map (\<lambda>kv. quoted (fst kv) @ '':'' @ example_stringify (snd kv)) kvs) @ ''}''"
| "example_stringify v = ''null''"

text \<open>
  Surroundings to run the handler in: no \<open>CLOUDFLARE_BACKEND\<close>, the given key, a
  backend that answers every call with the given outcome, the serialiser above, and
  V8's wording of the \<open>TypeError\<close>.
\<close>

definition stub_runtime :: "string option \<Rightarrow> fetch_outcome \<Rightarrow> runtime" where
  "stub_runtime key outcome =
     \<lparr> CLOUDFLARE_BACKEND = None,
       INTERNAL_API_KEY = key,
       fetch = (\<lambda>url init. outcome),
       JSON_stringify = example_stringify,
       null_property_error =
         (\<lambda>k. JsError (''Cannot read properties of null (reading ''
                 @ [CHR 0x27] @ k @ [CHR 0x27] @ '')'')) \<rparr>"

definition example_request :: submission_request where
  "example_request =
     \<lparr> agent_id = ''agent-7'',
       target_endpoint = ''https://api.example.com/x402/quote'',
       request_payload = [(''pair'', JStr ''ETH/USDC'')],
       payment_amount = ''10.00'' \<rparr>"


section \<open>Facts about the parts of the handler\<close>

lemma key_truthy [simp]: "truthy (env_value (Some k)) \<longleftrightarrow> k \<noteq> []"
  by (simp add: env_value_def)

lemma key_missing [simp]: "\<not> truthy (env_value None)"
  by (simp add: env_value_def)

lemma handler_without_key:
  assumes "INTERNAL_API_KEY rt = None \<or> INTERNAL_API_KEY rt = Some []"
  shows "handler rt input =
     \<lparr> returned =
         \<lparr> output_obj =
             [(''success'', JBool False),
              (''message'', JStr ''Service misconfigured: Missing API key'')],
           usage = \<lparr> total_tokens = 10 \<rparr> \<rparr>,
       calls = [],
       logged = [] \<rparr>"
  using assms by (auto simp: handler_def)

lemma handler_with_key:
  assumes "INTERNAL_API_KEY rt = Some apiKey" and "apiKey \<noteq> []"
  shows "handler rt input =
     (case backend_outcome rt apiKey input of
        Rejected e \<Rightarrow>
          \<lparr> returned = catch_block e,
            calls = [(backendUrl rt @ ''/submit'', submit_init rt apiKey input)],
            logged = [e] \<rparr>
      | Resolved resp \<Rightarrow>
          (case interpret_response rt resp of
             Inr r \<Rightarrow>
               \<lparr> returned = r,
                 calls = [(backendUrl rt @ ''/submit'', submit_init rt apiKey input)],
                 logged = [] \<rparr>
           | Inl error \<Rightarrow>
               \<lparr> returned = catch_block error,
                 calls = [(backendUrl rt @ ''/submit'', submit_init rt apiKey input)],
                 logged = [error] \<rparr>))"
  using assms
  by (simp add: handler_def try_block_def perform_fetch_def backend_outcome_def
      split: fetch_outcome.split sum.split)

lemma get_prop_value:
  assumes "data \<noteq> JNull" and "data \<noteq> JUndefined"
  shows "get_prop rt data k = Inr (own_prop data k)"
  using assms by (cases data) simp_all


lemma interpret_rejected_status:
  assumes "json resp = Inr data" and "data \<noteq> JNull" and "data \<noteq> JUndefined"
    and "\<not> ok resp"
  shows "interpret_response rt resp =
     Inr \<lparr> output_obj =
             [(''success'', JBool False),
              (''message'',
               js_or (own_prop data ''error'')
                 (JStr (''Backend error: '' @ show_nat (status resp))))],
           usage = \<lparr> total_tokens = 10 \<rparr> \<rparr>"
  using assms by (simp add: interpret_response_def get_prop_value)

lemma interpret_success_status:
  assumes "json resp = Inr data" and "data \<noteq> JNull" and "data \<noteq> JUndefined"
    and "ok resp"
  shows "interpret_response rt resp =
     Inr \<lparr> output_obj =
             [(''success'', own_prop data ''success''),
              (''transaction_id'', own_prop data ''transaction_id''),
              (''message'',
               js_or (own_prop data ''message'') (JStr ''Transaction submitted to dark pool'')),
              (''estimated_execution'', own_prop data ''estimated_execution'')],
           usage = \<lparr> total_tokens = 50 \<rparr> \<rparr>"
  using assms by (simp add: interpret_response_def get_prop_value)

lemma show_nat_503: "show_nat 503 = ''503''"
  by (simp add: show_nat.simps digit_char_def)

lemma handler_returned:
  assumes "INTERNAL_API_KEY rt = Some apiKey" and "apiKey \<noteq> []"
  shows "returned (handler rt input) =
     (case backend_outcome rt apiKey input of
        Rejected e \<Rightarrow> catch_block e
      | Resolved resp \<Rightarrow>
          (case interpret_response rt resp of Inl e \<Rightarrow> catch_block e | Inr r \<Rightarrow> r))"
  by (simp add: handler_with_key [OF assms] split: fetch_outcome.split sum.split)

section \<open>The missing credential\<close>

text \<open>
  Claim C2. When \<open>INTERNAL_API_KEY\<close> is absent from the environment, the handler
  returns exactly the object with \<open>success\<close> false and the message
  "Service misconfigured: Missing API key", and makes no \<open>fetch\<close> call.
\<close>

theorem missing_key_short_circuits:
  assumes "INTERNAL_API_KEY rt = None"
  shows "output_obj (returned (handler rt input)) =
           [(''success'', JBool False),
            (''message'', JStr ''Service misconfigured: Missing API key'')]
         \<and> calls (handler rt input) = []"
  using assms by (simp add: handler_without_key)

theorem missing_key_short_circuits_witness:
  "INTERNAL_API_KEY (stub_runtime None (Rejected (JsError ''ECONNREFUSED''))) = None \<and>
   output_obj (returned (handler (stub_runtime None (Rejected (JsError ''ECONNREFUSED'')))
       example_request)) =
     [(''success'', JBool False),
      (''message'', JStr ''Service misconfigured: Missing API key'')] \<and>
   calls (handler (stub_runtime None (Rejected (JsError ''ECONNREFUSED''))) example_request) = []"
  using missing_key_short_circuits
    [of "stub_runtime None (Rejected (JsError ''ECONNREFUSED''))" example_request]
  by (simp add: stub_runtime_def)

section \<open>Transport failures\<close>

text \<open>
  Claim C3. When the \<open>fetch\<close> call itself throws an error with text \<open>e\<close>, the
  handler catches it: it returns \<open>success\<close> false with the message
  "Failed to submit transaction: " followed by \<open>e\<close> (and usage 10), after writing the
  error to the console.
\<close>

theorem transport_failure_is_caught:
  assumes "INTERNAL_API_KEY rt = Some apiKey" and "apiKey \<noteq> []"
    and "backend_outcome rt apiKey input = Rejected (JsError e)"
  shows "returned (handler rt input) =
           \<lparr> output_obj =
               [(''success'', JBool False),
                (''message'', JStr (''Failed to submit transaction: '' @ e))],
             usage = \<lparr> total_tokens = 10 \<rparr> \<rparr>
         \<and> logged (handler rt input) = [JsError e]"
  using assms
  by (simp add: handler_with_key [OF assms(1,2)] catch_block_def)

theorem transport_failure_is_caught_witness:
  "INTERNAL_API_KEY (stub_runtime (Some ''secret'') (Rejected (JsError ''ECONNREFUSED'')))
     = Some ''secret'' \<and>
   ''secret'' \<noteq> [] \<and>
   backend_outcome (stub_runtime (Some ''secret'') (Rejected (JsError ''ECONNREFUSED'')))
     ''secret'' example_request = Rejected (JsError ''ECONNREFUSED'') \<and>
   returned (handler (stub_runtime (Some ''secret'') (Rejected (JsError ''ECONNREFUSED'')))
       example_request) =
     \<lparr> output_obj =
         [(''success'', JBool False),
          (''message'', JStr ''Failed to submit transaction: ECONNREFUSED'')],
       usage = \<lparr> total_tokens = 10 \<rparr> \<rparr> \<and>
   logged (handler (stub_runtime (Some ''secret'') (Rejected (JsError ''ECONNREFUSED'')))
       example_request) = [JsError ''ECONNREFUSED'']"
  using transport_failure_is_caught
    [of "stub_runtime (Some ''secret'') (Rejected (JsError ''ECONNREFUSED''))"
        "''secret''" example_request "''ECONNREFUSED''"]
  by (simp add: stub_runtime_def backend_outcome_def)

section \<open>A status outside 200 to 299\<close>

text \<open>
  Claim C4, as the code has it. For every response with a status \<open>s\<close> outside 200 to 299
  and a JSON body other than \<open>null\<close>, the handler returns \<open>success\<close> false (and usage 10)
  with the message equal to the body's \<open>error\<close> field if that field is present and
  truthy (not the empty string, zero, \<open>false\<close> or \<open>null\<close>), and otherwise the text
  "Backend error: " followed by \<open>s\<close>.
\<close>

theorem backend_rejection_message:
  assumes "INTERNAL_API_KEY rt = Some apiKey" and "apiKey \<noteq> []"
    and "backend_outcome rt apiKey input = Resolved resp"
    and "\<not> ok resp"
    and "json resp = Inr data" and "data \<noteq> JNull" and "data \<noteq> JUndefined"
  shows "returned (handler rt input) =
           \<lparr> output_obj =
               [(''success'', JBool False),
                (''message'',
                 if truthy (own_prop data ''error'') then own_prop data ''error''
                 else JStr (''Backend error: '' @ show_nat (status resp)))],
             usage = \<lparr> total_tokens = 10 \<rparr> \<rparr>"
  using assms(3)
  by (simp add: handler_returned [OF assms(1,2)]
      interpret_rejected_status [OF assms(5,6,7,4)] js_or_def)

theorem backend_rejection_message_witness:
  "INTERNAL_API_KEY (stub_runtime (Some ''secret'')
       (Resolved \<lparr> status = 503, json = Inr (JObj [(''error'', JStr ''overloaded'')]) \<rparr>))
     = Some ''secret'' \<and>
   ''secret'' \<noteq> [] \<and>
   backend_outcome (stub_runtime (Some ''secret'')
       (Resolved \<lparr> status = 503, json = Inr (JObj [(''error'', JStr ''overloaded'')]) \<rparr>))
     ''secret'' example_request
     = Resolved \<lparr> status = 503, json = Inr (JObj [(''error'', JStr ''overloaded'')]) \<rparr> \<and>
   \<not> ok \<lparr> status = 503, json = Inr (JObj [(''error'', JStr ''overloaded'')]) \<rparr> \<and>
   returned (handler (stub_runtime (Some ''secret'')
       (Resolved \<lparr> status = 503, json = Inr (JObj [(''error'', JStr ''overloaded'')]) \<rparr>))
     example_request) =
     \<lparr> output_obj = [(''success'', JBool False), (''message'', JStr ''overloaded'')],
       usage = \<lparr> total_tokens = 10 \<rparr> \<rparr>"
  using backend_rejection_message
    [of "stub_runtime (Some ''secret'')
          (Resolved \<lparr> status = 503, json = Inr (JObj [(''error'', JStr ''overloaded'')]) \<rparr>)"
        "''secret''" example_request
        "\<lparr> status = 503, json = Inr (JObj [(''error'', JStr ''overloaded'')]) \<rparr>"
        "JObj [(''error'', JStr ''overloaded'')]"]
  by (simp add: stub_runtime_def backend_outcome_def ok_def field_def)

text \<open>
  The claim as it is written fails where the \<open>error\<close> field is present and empty: on a
  503 with the body \<open>{"error": ""}\<close> the message is the generated text, not the field.
\<close>

theorem backend_rejection_message_counterexample:
  "map_of [(''error'', JStr '''')] ''error'' = Some (JStr '''') \<and>
   field (output_obj (returned (handler (stub_runtime (Some ''secret'')
       (Resolved \<lparr> status = 503, json = Inr (JObj [(''error'', JStr '''')]) \<rparr>))
     example_request))) ''message'' = JStr ''Backend error: 503'' \<and>
   field (output_obj (returned (handler (stub_runtime (Some ''secret'')
       (Resolved \<lparr> status = 503, json = Inr (JObj [(''error'', JStr '''')]) \<rparr>))
     example_request))) ''message'' \<noteq> JStr ''''"
  by (simp add: handler_def stub_runtime_def try_block_def perform_fetch_def
      interpret_response_def ok_def
      field_def js_or_def env_value_def show_nat_503)

section \<open>A status in 200 to 299\<close>

text \<open>
  Claim C5, as the code has it. For every response with a status in 200 to 299 and a
  JSON object body, the returned \<open>success\<close>, \<open>transaction_id\<close> and \<open>estimated_execution\<close> are
  the body's fields as they are (\<open>undefined\<close> when absent; \<open>success\<close> is not forced to
  true), the usage is 50, and the message is the body's \<open>message\<close> field if that field is
  present and truthy (not the empty string, zero, \<open>false\<close> or \<open>null\<close>), and otherwise
  "Transaction submitted to dark pool".
\<close>

theorem backend_success_passthrough:
  assumes "INTERNAL_API_KEY rt = Some apiKey" and "apiKey \<noteq> []"
    and "backend_outcome rt apiKey input = Resolved resp"
    and "ok resp"
    and "json resp = Inr (JObj kvs)"
  shows "returned (handler rt input) =
           \<lparr> output_obj =
               [(''success'', field kvs ''success''),
                (''transaction_id'', field kvs ''transaction_id''),
                (''message'',
                 if truthy (field kvs ''message'') then field kvs ''message''
                 else JStr ''Transaction submitted to dark pool''),
                (''estimated_execution'', field kvs ''estimated_execution'')],
             usage = \<lparr> total_tokens = 50 \<rparr> \<rparr>"
proof -
  have "interpret_response rt resp =
     Inr \<lparr> output_obj =
             [(''success'', own_prop (JObj kvs) ''success''),
              (''transaction_id'', own_prop (JObj kvs) ''transaction_id''),
              (''message'',
               js_or (own_prop (JObj kvs) ''message'') (JStr ''Transaction submitted to dark pool'')),
              (''estimated_execution'', own_prop (JObj kvs) ''estimated_execution'')],
           usage = \<lparr> total_tokens = 50 \<rparr> \<rparr>"
    using assms(5) _ _ assms(4) by (rule interpret_success_status) simp_all
  then show ?thesis
    using assms(3) by (simp add: handler_returned [OF assms(1,2)] js_or_def)
qed

theorem backend_success_passthrough_witness:
  "INTERNAL_API_KEY (stub_runtime (Some ''secret'')
       (Resolved \<lparr> status = 200, json = Inr (JObj
          [(''success'', JBool True), (''transaction_id'', JStr ''tx123''),
           (''estimated_execution'', JStr ''30s'')]) \<rparr>))
     = Some ''secret'' \<and>
   ''secret'' \<noteq> [] \<and>
   backend_outcome (stub_runtime (Some ''secret'')
       (Resolved \<lparr> status = 200, json = Inr (JObj
          [(''success'', JBool True), (''transaction_id'', JStr ''tx123''),
           (''estimated_execution'', JStr ''30s'')]) \<rparr>))
     ''secret'' example_request
     = Resolved \<lparr> status = 200, json = Inr (JObj
          [(''success'', JBool True), (''transaction_id'', JStr ''tx123''),
           (''estimated_execution'', JStr ''30s'')]) \<rparr> \<and>
   ok \<lparr> status = 200, json = Inr (JObj
          [(''success'', JBool True), (''transaction_id'', JStr ''tx123''),
           (''estimated_execution'', JStr ''30s'')]) \<rparr> \<and>
   returned (handler (stub_runtime (Some ''secret'')
       (Resolved \<lparr> status = 200, json = Inr (JObj
          [(''success'', JBool True), (''transaction_id'', JStr ''tx123''),
           (''estimated_execution'', JStr ''30s'')]) \<rparr>))
     example_request) =
     \<lparr> output_obj =
         [(''success'', JBool True),
          (''transaction_id'', JStr ''tx123''),
          (''message'', JStr ''Transaction submitted to dark pool''),
          (''estimated_execution'', JStr ''30s'')],
       usage = \<lparr> total_tokens = 50 \<rparr> \<rparr>"
  using backend_success_passthrough
    [of "stub_runtime (Some ''secret'')
          (Resolved \<lparr> status = 200, json = Inr (JObj
             [(''success'', JBool True), (''transaction_id'', JStr ''tx123''),
              (''estimated_execution'', JStr ''30s'')]) \<rparr>)"
        "''secret''" example_request
        "\<lparr> status = 200, json = Inr (JObj
             [(''success'', JBool True), (''transaction_id'', JStr ''tx123''),
              (''estimated_execution'', JStr ''30s'')]) \<rparr>"
        "[(''success'', JBool True), (''transaction_id'', JStr ''tx123''),
          (''estimated_execution'', JStr ''30s'')]"]
  by (simp add: stub_runtime_def backend_outcome_def ok_def field_def)

text \<open>
  The claim as it is written fails where the \<open>message\<close> field is present and empty: on a
  200 with the body \<open>{"success": true, "message": ""}\<close> the message is the default text.
\<close>

theorem backend_success_passthrough_counterexample:
  "map_of [(''success'', JBool True), (''message'', JStr '''')] ''message'' = Some (JStr '''') \<and>
   field (output_obj (returned (handler (stub_runtime (Some ''secret'')
       (Resolved \<lparr> status = 200, json = Inr (JObj
          [(''success'', JBool True), (''message'', JStr '''')]) \<rparr>))
     example_request))) ''message'' = JStr ''Transaction submitted to dark pool'' \<and>
   field (output_obj (returned (handler (stub_runtime (Some ''secret'')
       (Resolved \<lparr> status = 200, json = Inr (JObj
          [(''success'', JBool True), (''message'', JStr '''')]) \<rparr>))
     example_request))) ''message'' \<noteq> JStr ''''"
  by (simp add: handler_def stub_runtime_def try_block_def perform_fetch_def
      interpret_response_def ok_def
      field_def js_or_def env_value_def)

section \<open>The outbound call\<close>

text \<open>
  Claim C6. With a credential (a non-empty \<open>INTERNAL_API_KEY\<close>), the handler makes
  exactly one call, whatever the backend then does: a POST to the backend base URL
  followed by \<open>/submit\<close>, with the headers \<open>Content-Type: application/json\<close> and
  \<open>X-Internal-API-Key\<close> carrying the key, and as body the serialisation of the object
  holding exactly the four input fields with the values of the input. What the handler
  returns is read off the outcome of this very call.
\<close>

theorem one_outbound_post:
  assumes "INTERNAL_API_KEY rt = Some apiKey" and "apiKey \<noteq> []"
  shows "calls (handler rt input) =
           [(backendUrl rt @ ''/submit'',
             \<lparr> http_method = ''POST'',
               headers =
                 [(''Content-Type'', ''application/json''), (''X-Internal-API-Key'', apiKey)],
               body = JSON_stringify rt (JObj
                 [(''agent_id'', JStr (agent_id input)),
                  (''target_endpoint'', JStr (target_endpoint input)),
                  (''request_payload'', JObj (request_payload input)),
                  (''payment_amount'', JStr (payment_amount input))]) \<rparr>)]
         \<and> returned (handler rt input) =
           (case fetch rt (backendUrl rt @ ''/submit'')
                   \<lparr> http_method = ''POST'',
                     headers =
                       [(''Content-Type'', ''application/json''),
                        (''X-Internal-API-Key'', apiKey)],
                     body = JSON_stringify rt (JObj
                       [(''agent_id'', JStr (agent_id input)),
                        (''target_endpoint'', JStr (target_endpoint input)),
                        (''request_payload'', JObj (request_payload input)),
                        (''payment_amount'', JStr (payment_amount input))]) \<rparr> of
              Rejected e \<Rightarrow> catch_block e
            | Resolved resp \<Rightarrow>
                (case interpret_response rt resp of
                   Inl e \<Rightarrow> catch_block e
                 | Inr r \<Rightarrow> r))"
proof -
  let ?url = "backendUrl rt @ ''/submit''"
  let ?init = "submit_init rt apiKey input"
  have key: "truthy (env_value (INTERNAL_API_KEY rt))" "the (INTERNAL_API_KEY rt) = apiKey"
    using assms by simp_all
  have made: "snd (try_block rt apiKey input) = [(?url, ?init)]"
    by (simp add: try_block_def perform_fetch_def split: fetch_outcome.split)
  have thrown_or_returned: "fst (try_block rt apiKey input) =
      (case fetch rt ?url ?init of
         Rejected e \<Rightarrow> Inl e
       | Resolved resp \<Rightarrow> interpret_response rt resp)"
    by (simp add: try_block_def perform_fetch_def split: fetch_outcome.split)
  have run: "handler rt input =
      (case try_block rt apiKey input of
         (Inr r, made) \<Rightarrow> \<lparr> returned = r, calls = made, logged = [] \<rparr>
       | (Inl error, made) \<Rightarrow>
           \<lparr> returned = catch_block error, calls = made, logged = [error] \<rparr>)"
    using key by (simp add: handler_def)
  have "calls (handler rt input) = snd (try_block rt apiKey input)"
    unfolding run by (simp split: prod.split sum.split)
  moreover have "returned (handler rt input) =
      (case fst (try_block rt apiKey input) of Inl e \<Rightarrow> catch_block e | Inr r \<Rightarrow> r)"
    unfolding run by (simp split: prod.split sum.split)
  ultimately show ?thesis
    unfolding made thrown_or_returned
    by (simp add: submit_init_def split: fetch_outcome.split)
qed

theorem one_outbound_post_witness:
  "INTERNAL_API_KEY (stub_runtime (Some ''secret'') (Rejected (JsError ''timeout'')))
     = Some ''secret'' \<and>
   ''secret'' \<noteq> [] \<and>
   calls (handler (stub_runtime (Some ''secret'') (Rejected (JsError ''timeout'')))
       example_request) =
     [(''https://agent-dark-pool.pulseradar.workers.dev/submit'',
       \<lparr> http_method = ''POST'',
         headers =
           [(''Content-Type'', ''application/json''), (''X-Internal-API-Key'', ''secret'')],
         body = ''{\"agent_id\":\"agent-7\",\"target_endpoint\":\"https://api.example.com/x402/quote\",\"request_payload\":{\"pair\":\"ETH/USDC\"},\"payment_amount\":\"10.00\"}'' \<rparr>)] \<and>
   returned (handler (stub_runtime (Some ''secret'') (Rejected (JsError ''timeout'')))
       example_request) =
     \<lparr> output_obj =
         [(''success'', JBool False),
          (''message'', JStr ''Failed to submit transaction: timeout'')],
       usage = \<lparr> total_tokens = 10 \<rparr> \<rparr>"
  using one_outbound_post
    [of "stub_runtime (Some ''secret'') (Rejected (JsError ''timeout''))"
        "''secret''" example_request]
  by (simp add: stub_runtime_def backendUrl_def example_request_def quoted_def catch_block_def)

section \<open>The usage value\<close>




section \<open>A body without success\<close>

text \<open>
  Claim C9. When the response has a status in 200 to 299 and a JSON object body with
  no \<open>success\<close> field, the returned \<open>success\<close> is \<open>undefined\<close>, not a boolean, and the
  output does not satisfy the output schema.
\<close>

theorem missing_success_is_undefined:
  assumes "INTERNAL_API_KEY rt = Some apiKey" and "apiKey \<noteq> []"
    and "backend_outcome rt apiKey input = Resolved resp"
    and "ok resp"
    and "json resp = Inr (JObj kvs)"
    and "map_of kvs ''success'' = None"
  shows "field (output_obj (returned (handler rt input))) ''success'' = JUndefined
         \<and> \<not> is_boolean (field (output_obj (returned (handler rt input))) ''success'')
         \<and> \<not> DarkPoolSubmitOutputSchema (output_obj (returned (handler rt input)))"
proof -
  have "interpret_response rt resp =
     Inr \<lparr> output_obj =
             [(''success'', own_prop (JObj kvs) ''success''),
              (''transaction_id'', own_prop (JObj kvs) ''transaction_id''),
              (''message'',
               js_or (own_prop (JObj kvs) ''message'') (JStr ''Transaction submitted to dark pool'')),
              (''estimated_execution'', own_prop (JObj kvs) ''estimated_execution'')],
           usage = \<lparr> total_tokens = 50 \<rparr> \<rparr>"
    using assms(5) _ _ assms(4) by (rule interpret_success_status) simp_all
  then have "field (output_obj (returned (handler rt input))) ''success'' = JUndefined"
    using assms(3,6) by (simp add: handler_returned [OF assms(1,2)] field_def)
  then show ?thesis
    by (simp add: DarkPoolSubmitOutputSchema_def)
qed

theorem missing_success_is_undefined_witness:
  "INTERNAL_API_KEY (stub_runtime (Some ''secret'')
       (Resolved \<lparr> status = 201, json = Inr (JObj [(''transaction_id'', JStr ''tx9'')]) \<rparr>))
     = Some ''secret'' \<and>
   ''secret'' \<noteq> [] \<and>
   backend_outcome (stub_runtime (Some ''secret'')
       (Resolved \<lparr> status = 201, json = Inr (JObj [(''transaction_id'', JStr ''tx9'')]) \<rparr>))
     ''secret'' example_request
     = Resolved \<lparr> status = 201, json = Inr (JObj [(''transaction_id'', JStr ''tx9'')]) \<rparr> \<and>
   ok \<lparr> status = 201, json = Inr (JObj [(''transaction_id'', JStr ''tx9'')]) \<rparr> \<and>
   map_of [(''transaction_id'', JStr ''tx9'')] ''success'' = None \<and>
   field (output_obj (returned (handler (stub_runtime (Some ''secret'')
       (Resolved \<lparr> status = 201, json = Inr (JObj [(''transaction_id'', JStr ''tx9'')]) \<rparr>))
     example_request))) ''success'' = JUndefined \<and>
   \<not> DarkPoolSubmitOutputSchema (output_obj (returned (handler (stub_runtime (Some ''secret'')
       (Resolved \<lparr> status = 201, json = Inr (JObj [(''transaction_id'', JStr ''tx9'')]) \<rparr>))
     example_request)))"
  using missing_success_is_undefined
    [of "stub_runtime (Some ''secret'')
          (Resolved \<lparr> status = 201, json = Inr (JObj [(''transaction_id'', JStr ''tx9'')]) \<rparr>)"
        "''secret''" example_request
        "\<lparr> status = 201, json = Inr (JObj [(''transaction_id'', JStr ''tx9'')]) \<rparr>"
        "[(''transaction_id'', JStr ''tx9'')]"]
  by (simp add: stub_runtime_def backend_outcome_def ok_def)

section \<open>Empty texts from the backend\<close>

text \<open>
  Claim C10. On the two paths that relay a text of the backend (\<open>error\<close> on a status
  outside 200 to 299, \<open>message\<close> inside it), a field that is present but the empty
  string is treated as an absent one: the generated default takes its place. So the
  returned message is never the empty string on these paths.
\<close>

theorem empty_text_is_replaced:
  assumes "INTERNAL_API_KEY rt = Some apiKey" and "apiKey \<noteq> []"
    and "backend_outcome rt apiKey input = Resolved resp"
    and "json resp = Inr (JObj kvs)"
  shows "field (output_obj (returned (handler rt input))) ''message'' \<noteq> JStr '''' \<and>
         (map_of kvs (if ok resp then ''message'' else ''error'') = None \<or>
          map_of kvs (if ok resp then ''message'' else ''error'') = Some (JStr '''') \<longrightarrow>
          field (output_obj (returned (handler rt input))) ''message'' =
            JStr (if ok resp then ''Transaction submitted to dark pool''
                  else ''Backend error: '' @ show_nat (status resp)))"
proof (cases "ok resp")
  case True
  have "interpret_response rt resp =
     Inr \<lparr> output_obj =
             [(''success'', own_prop (JObj kvs) ''success''),
              (''transaction_id'', own_prop (JObj kvs) ''transaction_id''),
              (''message'',
               js_or (own_prop (JObj kvs) ''message'') (JStr ''Transaction submitted to dark pool'')),
              (''estimated_execution'', own_prop (JObj kvs) ''estimated_execution'')],
           usage = \<lparr> total_tokens = 50 \<rparr> \<rparr>"
    using assms(4) _ _ True by (rule interpret_success_status) simp_all
  then have "field (output_obj (returned (handler rt input))) ''message'' =
      js_or (field kvs ''message'') (JStr ''Transaction submitted to dark pool'')"
    using assms(3) by (simp add: handler_returned [OF assms(1,2)] field_def)
  then show ?thesis
    using True by (auto simp: js_or_def field_def)
next
  case False
  have "interpret_response rt resp =
     Inr \<lparr> output_obj =
             [(''success'', JBool False),
              (''message'',
               js_or (own_prop (JObj kvs) ''error'')
                 (JStr (''Backend error: '' @ show_nat (status resp))))],
           usage = \<lparr> total_tokens = 10 \<rparr> \<rparr>"
    using assms(4) _ _ False by (rule interpret_rejected_status) simp_all
  then have "field (output_obj (returned (handler rt input))) ''message'' =
      js_or (field kvs ''error'') (JStr (''Backend error: '' @ show_nat (status resp)))"
    using assms(3) by (simp add: handler_returned [OF assms(1,2)] field_def)
  then show ?thesis
    using False by (auto simp: js_or_def field_def)
qed

theorem empty_text_is_replaced_witness:
  "INTERNAL_API_KEY (stub_runtime (Some ''secret'')
       (Resolved \<lparr> status = 404, json = Inr (JObj [(''error'', JStr '''')]) \<rparr>))
     = Some ''secret'' \<and>
   ''secret'' \<noteq> [] \<and>
   backend_outcome (stub_runtime (Some ''secret'')
       (Resolved \<lparr> status = 404, json = Inr (JObj [(''error'', JStr '''')]) \<rparr>))
     ''secret'' example_request
     = Resolved \<lparr> status = 404, json = Inr (JObj [(''error'', JStr '''')]) \<rparr> \<and>
   \<not> ok \<lparr> status = 404, json = Inr (JObj [(''error'', JStr '''')]) \<rparr> \<and>
   map_of [(''error'', JStr '''')] ''error'' = Some (JStr '''') \<and>
   field (output_obj (returned (handler (stub_runtime (Some ''secret'')
       (Resolved \<lparr> status = 404, json = Inr (JObj [(''error'', JStr '''')]) \<rparr>))
     example_request))) ''message'' = JStr ''Backend error: 404''"
  using empty_text_is_replaced
    [of "stub_runtime (Some ''secret'')
          (Resolved \<lparr> status = 404, json = Inr (JObj [(''error'', JStr '''')]) \<rparr>)"
        "''secret''" example_request
        "\<lparr> status = 404, json = Inr (JObj [(''error'', JStr '''')]) \<rparr>"
        "[(''error'', JStr '''')]"]
  by (simp add: stub_runtime_def backend_outcome_def ok_def show_nat.simps digit_char_def)

section \<open>The shape of what the handler returns\<close>

text \<open>
  Claim C1 asks for an output that satisfies the output schema whatever the backend
  answers. The handler registers \<open>DarkPoolSubmitOutputSchema\<close> for its output, yet on a
  500 with the body \<open>{"error": {"code": "E_BUSY"}}\<close>, for a valid request, it returns
  that object as the message (with usage 10), which the schema rejects.
\<close>

theorem object_error_breaks_output_schema:
  "agent_id example_request \<noteq> [] \<and>
   payment_amount_ok (payment_amount example_request) \<and>
   returned (handler (stub_runtime (Some ''secret'')
       (Resolved \<lparr> status = 500, json = Inr (JObj
          [(''error'', JObj [(''code'', JStr ''E_BUSY'')])]) \<rparr>))
     example_request) =
     \<lparr> output_obj =
         [(''success'', JBool False), (''message'', JObj [(''code'', JStr ''E_BUSY'')])],
       usage = \<lparr> total_tokens = 10 \<rparr> \<rparr> \<and>
   \<not> is_string (JObj [(''code'', JStr ''E_BUSY'')]) \<and>
   \<not> DarkPoolSubmitOutputSchema (output_obj (returned (handler (stub_runtime (Some ''secret'')
       (Resolved \<lparr> status = 500, json = Inr (JObj
          [(''error'', JObj [(''code'', JStr ''E_BUSY'')])]) \<rparr>))
     example_request)))"
  by (simp add: handler_def stub_runtime_def try_block_def perform_fetch_def
      interpret_response_def ok_def field_def js_or_def env_value_def
      DarkPoolSubmitOutputSchema_def example_request_def
      payment_amount_ok_def payment_amount_regex_def Plus_def is_digit_def numeral_2_eq_2)

section \<open>The payment amount pattern matches what it should\<close>

lemma nullable_lang: "nullable r \<longleftrightarrow> [] \<in> lang r"
  by (induction r) (auto intro: star.intros)

lemma star_cons:
  "c # w \<in> star A \<longleftrightarrow> (\<exists>u v. w = u @ v \<and> c # u \<in> A \<and> v \<in> star A)"
proof
  assume "c # w \<in> star A"
  then show "\<exists>u v. w = u @ v \<and> c # u \<in> A \<and> v \<in> star A"
  proof (induction "c # w" rule: star.induct)
    case (star_step u v)
    then show ?case by (cases u) auto
  qed
next
  assume "\<exists>u v. w = u @ v \<and> c # u \<in> A \<and> v \<in> star A"
  then obtain u v where "w = u @ v" "c # u \<in> A" "v \<in> star A" by blast
  then show "c # w \<in> star A"
    using star_step [of "c # u" A v] by simp
qed

lemma lang_SeqI: "u \<in> lang r \<Longrightarrow> v \<in> lang s \<Longrightarrow> u @ v \<in> lang (Seq r s)"
  by auto

lemma lang_SeqE:
  assumes "w \<in> lang (Seq r s)"
  obtains u v where "w = u @ v" "u \<in> lang r" "v \<in> lang s"
  using assms by auto

lemma deriv_lang: "w \<in> lang (deriv c r) \<longleftrightarrow> c # w \<in> lang r"
proof (induction r arbitrary: w)
  case (Seq r s)
  show ?case
  proof
    assume d: "w \<in> lang (deriv c (Seq r s))"
    have "w \<in> lang (Seq (deriv c r) s) \<or> (nullable r \<and> w \<in> lang (deriv c s))"
      using d by (cases "nullable r") simp_all
    then show "c # w \<in> lang (Seq r s)"
    proof
      assume "w \<in> lang (Seq (deriv c r) s)"
      then obtain u v where uv: "w = u @ v" "u \<in> lang (deriv c r)" "v \<in> lang s"
        by (rule lang_SeqE)
      from uv(2) have "c # u \<in> lang r" by (simp only: Seq.IH(1))
      then have "(c # u) @ v \<in> lang (Seq r s)" using uv(3) by (rule lang_SeqI)
      then show ?thesis using uv(1) by simp
    next
      assume n: "nullable r \<and> w \<in> lang (deriv c s)"
      then have "[] \<in> lang r" by (simp add: nullable_lang)
      moreover from n have "c # w \<in> lang s" by (simp only: Seq.IH(2))
      ultimately have "[] @ (c # w) \<in> lang (Seq r s)" by (rule lang_SeqI)
      then show ?thesis by simp
    qed
  next
    assume "c # w \<in> lang (Seq r s)"
    then obtain u v where uv: "c # w = u @ v" "u \<in> lang r" "v \<in> lang s"
      by (rule lang_SeqE)
    show "w \<in> lang (deriv c (Seq r s))"
    proof (cases u)
      case Nil
      with uv have "nullable r" "w \<in> lang (deriv c s)"
        by (simp_all add: nullable_lang Seq.IH(2))
      then show ?thesis by simp
    next
      case (Cons d u')
      with uv have "w = u' @ v" "c # u' \<in> lang r" by simp_all
      then have "w = u' @ v" "u' \<in> lang (deriv c r)"
        by (simp_all only: Seq.IH(1))
      then have "w \<in> lang (Seq (deriv c r) s)" using uv(3) lang_SeqI by blast
      then show ?thesis by simp
    qed
  qed
next
  case (Star r)
  show ?case
  proof -
    have "w \<in> lang (deriv c (Star r)) \<longleftrightarrow>
          (\<exists>u v. w = u @ v \<and> u \<in> lang (deriv c r) \<and> v \<in> star (lang r))"
      by auto
    also have "\<dots> \<longleftrightarrow> (\<exists>u v. w = u @ v \<and> c # u \<in> lang r \<and> v \<in> star (lang r))"
      by (simp only: Star.IH)
    also have "\<dots> \<longleftrightarrow> c # w \<in> lang (Star r)"
      by (simp only: star_cons lang.simps)
    finally show ?thesis .
  qed
qed auto

lemma matches_lang: "matches r s \<longleftrightarrow> s \<in> lang r"
  by (induction s arbitrary: r) (simp_all add: nullable_lang deriv_lang)

lemma star_digits: "w \<in> star (lang Digit) \<longleftrightarrow> list_all is_digit w"
proof
  assume "w \<in> star (lang Digit)"
  then show "list_all is_digit w"
    by (induction rule: star.induct) auto
next
  assume "list_all is_digit w"
  then show "w \<in> star (lang Digit)"
  proof (induction w)
    case Nil
    then show ?case by (simp add: star_empty)
  next
    case (Cons c w)
    then have "[c] \<in> lang Digit" "w \<in> star (lang Digit)" by simp_all
    then have "[c] @ w \<in> star (lang Digit)" by (rule star_step)
    then show ?case by simp
  qed
qed

lemma lang_Seq_Digit:
  "w \<in> lang (Seq Digit s) \<longleftrightarrow> (\<exists>c v. w = c # v \<and> is_digit c \<and> v \<in> lang s)"
proof
  assume "w \<in> lang (Seq Digit s)"
  then obtain u v where "w = u @ v" "u \<in> lang Digit" "v \<in> lang s"
    by (rule lang_SeqE)
  then show "\<exists>c v. w = c # v \<and> is_digit c \<and> v \<in> lang s" by auto
next
  assume "\<exists>c v. w = c # v \<and> is_digit c \<and> v \<in> lang s"
  then obtain c v where cv: "w = c # v" "is_digit c" "v \<in> lang s" by blast
  from cv(2) have "[c] \<in> lang Digit" by simp
  then have "[c] @ v \<in> lang (Seq Digit s)" using cv(3) by (rule lang_SeqI)
  then show "w \<in> lang (Seq Digit s)" using cv(1) by simp
qed

lemma lang_plus_digit: "w \<in> lang (Plus Digit) \<longleftrightarrow> w \<noteq> [] \<and> list_all is_digit w"
proof -
  have "w \<in> lang (Plus Digit) \<longleftrightarrow> (\<exists>c v. w = c # v \<and> is_digit c \<and> v \<in> star (lang Digit))"
    unfolding Plus_def lang_Seq_Digit by (simp only: lang.simps(7))
  also have "\<dots> \<longleftrightarrow> w \<noteq> [] \<and> list_all is_digit w"
    by (cases w) (simp_all add: star_digits del: lang.simps)
  finally show ?thesis .
qed

lemma lang_two_digits:
  "w \<in> lang (Times 2 Digit) \<longleftrightarrow> (\<exists>a b. w = [a, b] \<and> is_digit a \<and> is_digit b)"
proof -
  have "Times 2 Digit = Seq Digit (Seq Digit One)"
    by (simp add: numeral_2_eq_2)
  then show ?thesis
    by (auto simp add: lang_Seq_Digit simp del: lang.simps(6))
qed

lemma payment_amount_lang:
  "s \<in> lang payment_amount_regex \<longleftrightarrow>
     (\<exists>ip a b. s = ip @ ''.'' @ [a, b] \<and> ip \<noteq> [] \<and> list_all is_digit ip \<and>
        is_digit a \<and> is_digit b)"
proof -
  have "s \<in> lang payment_amount_regex \<longleftrightarrow>
     (\<exists>u v. s = u @ v \<and> u \<in> lang (Plus Digit) \<and>
        (\<exists>x y. v = x @ y \<and> x = ''.'' \<and> y \<in> lang (Times 2 Digit)))"
    unfolding payment_amount_regex_def by (simp only: lang.simps) blast
  also have "\<dots> \<longleftrightarrow>
     (\<exists>ip a b. s = ip @ ''.'' @ [a, b] \<and> ip \<noteq> [] \<and> list_all is_digit ip \<and>
        is_digit a \<and> is_digit b)"
    unfolding lang_plus_digit lang_two_digits by blast
  finally show ?thesis .
qed

text \<open>
  Claim C7. The validation of \<open>payment_amount\<close> accepts a string exactly when it is a
  non-empty run of digits, a decimal point and exactly two digits; so it rejects "10",
  "10.5", "10.000" and a signed value such as "-5.00" (and accepts "10.00"). The
  check works on the text; no number is computed from it.
\<close>

theorem payment_amount_pattern:
  "(payment_amount_ok s \<longleftrightarrow>
      (\<exists>ip a b. s = ip @ ''.'' @ [a, b] \<and> ip \<noteq> [] \<and> list_all is_digit ip \<and>
         is_digit a \<and> is_digit b))
   \<and> \<not> payment_amount_ok ''10''
   \<and> \<not> payment_amount_ok ''10.5''
   \<and> \<not> payment_amount_ok ''10.000''
   \<and> \<not> payment_amount_ok ''-5.00''
   \<and> payment_amount_ok ''10.00''"
proof (intro conjI)
  show "payment_amount_ok s \<longleftrightarrow>
      (\<exists>ip a b. s = ip @ ''.'' @ [a, b] \<and> ip \<noteq> [] \<and> list_all is_digit ip \<and>
         is_digit a \<and> is_digit b)"
    by (simp only: payment_amount_ok_def matches_lang payment_amount_lang)
next
  show "\<not> payment_amount_ok ''10''"
    by (simp add: payment_amount_ok_def payment_amount_regex_def Plus_def is_digit_def
        numeral_2_eq_2)
next
  show "\<not> payment_amount_ok ''10.5''"
    by (simp add: payment_amount_ok_def payment_amount_regex_def Plus_def is_digit_def
        numeral_2_eq_2)
next
  show "\<not> payment_amount_ok ''10.000''"
    by (simp add: payment_amount_ok_def payment_amount_regex_def Plus_def is_digit_def
        numeral_2_eq_2)
next
  show "\<not> payment_amount_ok ''-5.00''"
    by (simp add: payment_amount_ok_def payment_amount_regex_def Plus_def is_digit_def
        numeral_2_eq_2)
next
  show "payment_amount_ok ''10.00''"
    by (simp add: payment_amount_ok_def payment_amount_regex_def Plus_def is_digit_def
        numeral_2_eq_2)
qed

theorem payment_amount_pattern_witness:
  "payment_amount_ok ''0.50'' \<and>
   (\<exists>ip a b. ''0.50'' = ip @ ''.'' @ [a, b] \<and> ip \<noteq> [] \<and> list_all is_digit ip \<and>
      is_digit a \<and> is_digit b)"
proof -
  have "payment_amount_ok ''0.50''"
    by (simp add: payment_amount_ok_def payment_amount_regex_def Plus_def is_digit_def
        numeral_2_eq_2)
  then show ?thesis
    using payment_amount_pattern [of "''0.50''"] by simp
qed

end
